theory Spec2Isabelle
  imports Complex_Main "HOL-Library.Word"
begin

section \<open>The pyrevm benchmark runner (runners/pyrevm/runner.py)\<close>

text \<open>
  The runner reads hexadecimal contract code from a file, deploys it once into a fresh
  \<open>pyrevm.EVM\<close>, and then calls the deployed contract \<open>num_runs\<close> times, printing the
  wall-clock duration of each call in milliseconds. This theory embeds the module function by
  function. Python's leading underscores are dropped from the names (\<open>_benchmark\<close> is
  \<open>benchmark\<close>), since an Isabelle name cannot start with one.
\<close>

subsection \<open>Constants\<close>

type_synonym byte = "8 word"
type_synonym bytes = "byte list"
type_synonym address = string

definition GAS_LIMIT :: int where
  "GAS_LIMIT = 1000000000"

definition ZERO_ADDRESS :: address where
  "ZERO_ADDRESS = ''0x0000000000000000000000000000000000000000''"

definition CALLER_ADDRESS :: address where
  "CALLER_ADDRESS = ''0x1000000000000000000000000000000000000001''"

subsection \<open>Exceptions\<close>

text \<open>
  The module defines no exception class of its own. What escapes \<open>main\<close> is one of Python's
  built-in exceptions, raised at one of these places:
  \<^item> \<open>assert data_file_path is not None, "Contract code path is required"\<close>:
    \<open>AssertionError\<close> with the message;
  \<^item> \<open>open(data_file_path, mode="r")\<close>: \<open>OSError\<close> (FileNotFoundError, PermissionError, ...);
  \<^item> \<open>bytes.fromhex(text)\<close>: \<open>ValueError\<close> on text that is not hexadecimal, \<open>TypeError\<close> when
    the argument is \<open>None\<close>;
  \<^item> \<open>assert evm.result.is_success, evm.result\<close>: \<open>AssertionError\<close> carrying \<open>evm.result\<close>;
  \<^item> \<open>range(num_runs)\<close>: \<open>TypeError\<close> when \<open>num_runs\<close> is \<open>None\<close>.
  An uncaught exception ends the interpreter with exit status 1.
\<close>

text \<open>
  \<open>evm.result\<close>: the driver reads its \<open>is_success\<close> attribute only; \<open>detail\<close> stands for
  everything else the engine stores in the object.
\<close>

record exec_result =
  is_success :: bool
  detail :: string

datatype assert_arg = Message string | EngineResult exec_result

datatype error =
    AssertionError assert_arg
  | OSError
  | ValueError
  | TypeError

subsection \<open>\<open>bytes.fromhex\<close> and \<open>bytes.hex\<close>\<close>

text \<open>
  \<open>bytes.fromhex\<close> is Python's own (CPython, \<open>_PyBytes_FromHex\<close>): it walks the string,
  skips any run of ASCII whitespace that stands where a byte may start, and then wants two
  hexadecimal digits next to each other. Anything else raises \<open>ValueError\<close>: a character that
  is neither a digit nor whitespace, a single digit at the end, whitespace between the two
  digits of a byte, any character beyond ASCII.
\<close>

definition py_isspace :: "char \<Rightarrow> bool" where
  "py_isspace c = (let n = (of_char c :: nat) in n = 32 \<or> (9 \<le> n \<and> n \<le> 13))"

definition digit_value :: "char \<Rightarrow> nat option" where
  "digit_value c =
     (let n = (of_char c :: nat) in
      if 48 \<le> n \<and> n \<le> 57 then Some (n - 48)
      else if 97 \<le> n \<and> n \<le> 102 then Some (n - 87)
      else if 65 \<le> n \<and> n \<le> 70 then Some (n - 55)
      else None)"

fun fromhex :: "string \<Rightarrow> error + bytes" where
  "fromhex [] = Inr []"
| "fromhex [c] =
     (if py_isspace c then Inr [] else Inl ValueError)"
| "fromhex (c # d # cs) =
     (if py_isspace c then fromhex (d # cs)
      else case digit_value c of
        None \<Rightarrow> Inl ValueError
      | Some hi \<Rightarrow>
          (case digit_value d of
             None \<Rightarrow> Inl ValueError
           | Some lo \<Rightarrow>
               (case fromhex cs of
                  Inl e \<Rightarrow> Inl e
                | Inr bs \<Rightarrow> Inr (of_nat (hi * 16 + lo) # bs))))"

text \<open>\<open>bytes.fromhex(x)\<close> where \<open>x\<close> may be \<open>None\<close>, as an absent command-line option is.\<close>

definition fromhex_arg :: "string option \<Rightarrow> error + bytes" where
  "fromhex_arg x = (case x of None \<Rightarrow> Inl TypeError | Some s \<Rightarrow> fromhex s)"

text \<open>
  \<open>bytes.hex\<close>, the re-encoding the round-trip law speaks of: two lower-case digits per byte.
  \<open>ascii_lower\<close> is \<open>str.lower\<close> on ASCII letters.
\<close>

definition hex_digit :: "nat \<Rightarrow> char" where
  "hex_digit n = (if n < 10 then char_of (48 + n) else char_of (87 + n))"

fun hex :: "bytes \<Rightarrow> string" where
  "hex [] = []"
| "hex (b # bs) = hex_digit (unat b div 16) # hex_digit (unat b mod 16) # hex bs"

definition ascii_lower :: "char \<Rightarrow> char" where
  "ascii_lower c =
     (let n = (of_char c :: nat) in if 65 \<le> n \<and> n \<le> 90 then char_of (n + 32) else c)"

text \<open>
  A valid hexadecimal string in the sense of the specification: hexadecimal digits only, an
  even number of them.
\<close>

definition is_hex_digit :: "char \<Rightarrow> bool" where
  "is_hex_digit c = (digit_value c \<noteq> None)"

definition valid_hex :: "string \<Rightarrow> bool" where
  "valid_hex s = (even (length s) \<and> list_all is_hex_digit s)"

subsection \<open>The execution engine, the clock and the file system\<close>

text \<open>
  \<open>pyrevm\<close> is an external library. Its \<open>EVM\<close> object is mutable: the model passes its state
  (of any type \<open>'s\<close>) through every call. The four things the runner uses from it are the
  fields of \<open>engine\<close>: the constructor \<open>pyrevm.EVM()\<close>, \<open>evm.deploy\<close>, the attribute
  \<open>evm.result\<close> and \<open>evm.message_call\<close>. They are parameters of the model: every theorem
  holds for every engine. An engine operation returns; what it returns is up to the engine.
\<close>

record 's engine =
  EVM :: 's
  deploy :: "address \<Rightarrow> bytes \<Rightarrow> int \<Rightarrow> 's \<Rightarrow> address \<times> 's"
  result :: "'s \<Rightarrow> exec_result"
  message_call :: "address \<Rightarrow> address \<Rightarrow> bytes \<Rightarrow> int \<Rightarrow> 's \<Rightarrow> bytes \<times> 's"

text \<open>
  What the process does to the outside, in the order it does it: calls of the engine, readings
  of \<open>time.perf_counter_ns()\<close> and lines printed on standard output. A printed line is
  modelled by the number it shows, \<open>(end - start) / 1e6\<close>, as a real number (the rounding of
  Python's float division is not modelled).
\<close>

datatype event =
    DeployCall address bytes int
  | MessageCall address address bytes int
  | PerfCounter int
  | Print real

text \<open>
  The state of the process once the engine exists: the engine, the number of clock readings
  taken so far, and the events so far (oldest first). The \<open>k\<close>-th reading of the clock returns
  \<open>clock k\<close>, for a function \<open>clock\<close> the environment chooses.
\<close>

record 's state =
  evm :: 's
  reads :: nat
  trace :: "event list"

definition construct_evm :: "'s engine \<Rightarrow> 's state" where
  "construct_evm eng = \<lparr>evm = EVM eng, reads = 0, trace = []\<rparr>"

definition perf_counter_ns :: "(nat \<Rightarrow> int) \<Rightarrow> 's state \<Rightarrow> int \<times> 's state" where
  "perf_counter_ns clock st =
     (clock (reads st),
      st\<lparr>reads := Suc (reads st), trace := trace st @ [PerfCounter (clock (reads st))]\<rparr>)"

definition print_line :: "real \<Rightarrow> 's state \<Rightarrow> 's state" where
  "print_line v st = st\<lparr>trace := trace st @ [Print v]\<rparr>"

subsection \<open>\<open>_load_contract_data\<close>\<close>

text \<open>
  The file system maps a path to the text of the file, or to \<open>None\<close> when \<open>open\<close> fails.
\<close>

definition load_contract_data :: "(string \<Rightarrow> string option) \<Rightarrow> string option \<Rightarrow> error + bytes" where
  "load_contract_data fs data_file_path =
     (case data_file_path of
        None \<Rightarrow> Inl (AssertionError (Message ''Contract code path is required''))
      | Some p \<Rightarrow>
          (case fs p of
             None \<Rightarrow> Inl OSError
           | Some text \<Rightarrow> fromhex text))"

subsection \<open>\<open>_benchmark\<close>\<close>

text \<open>The inner function \<open>bench\<close>: one \<open>evm.message_call\<close>, whose return value is dropped.\<close>

definition bench :: "'s engine \<Rightarrow> address \<Rightarrow> address \<Rightarrow> bytes \<Rightarrow> 's state \<Rightarrow> 's state" where
  "bench eng caller_address contract_address call_data st =
     (let (out, s') = message_call eng caller_address contract_address call_data GAS_LIMIT (evm st)
      in st\<lparr>evm := s',
            trace := trace st @ [MessageCall caller_address contract_address call_data GAS_LIMIT]\<rparr>)"

text \<open>The body of the \<open>for\<close> loop.\<close>

definition loop_body ::
  "'s engine \<Rightarrow> (nat \<Rightarrow> int) \<Rightarrow> address \<Rightarrow> address \<Rightarrow> bytes \<Rightarrow> 's state \<Rightarrow> 's state" where
  "loop_body eng clock caller_address contract_address call_data st =
     (let (start, st1) = perf_counter_ns clock st;
          st2 = bench eng caller_address contract_address call_data st1;
          (finish, st3) = perf_counter_ns clock st2
      in print_line (real_of_int (finish - start) / 1000000) st3)"

text \<open>\<open>for _ in range(n)\<close> runs its body \<open>n\<close> times for \<open>n > 0\<close> and not at all otherwise.\<close>

definition range_len :: "int \<Rightarrow> nat" where
  "range_len n = (if n \<le> 0 then 0 else nat n)"

fun bench_loop ::
  "'s engine \<Rightarrow> (nat \<Rightarrow> int) \<Rightarrow> address \<Rightarrow> address \<Rightarrow> bytes \<Rightarrow> nat \<Rightarrow> 's state \<Rightarrow> 's state" where
  "bench_loop eng clock caller_address contract_address call_data 0 st = st"
| "bench_loop eng clock caller_address contract_address call_data (Suc n) st =
     bench_loop eng clock caller_address contract_address call_data n
       (loop_body eng clock caller_address contract_address call_data st)"

text \<open>
  \<open>num_runs\<close> is \<open>None\<close> when the option was not given: \<open>range(None)\<close> raises \<open>TypeError\<close>, and
  it is evaluated after the deployment and its assertion.
\<close>

definition benchmark ::
  "'s engine \<Rightarrow> (nat \<Rightarrow> int) \<Rightarrow> address \<Rightarrow> bytes \<Rightarrow> bytes \<Rightarrow> int option \<Rightarrow> 's state
     \<Rightarrow> (error + unit) \<times> 's state" where
  "benchmark eng clock caller_address contract_data call_data num_runs st =
     (let (contract_address, s1) = deploy eng caller_address contract_data GAS_LIMIT (evm st);
          st1 = st\<lparr>evm := s1,
                   trace := trace st @ [DeployCall caller_address contract_data GAS_LIMIT]\<rparr>
      in if \<not> is_success (result eng s1)
         then (Inl (AssertionError (EngineResult (result eng s1))), st1)
         else case num_runs of
                None \<Rightarrow> (Inl TypeError, st1)
              | Some n \<Rightarrow>
                  (Inr (),
                   bench_loop eng clock caller_address contract_address call_data
                     (range_len n) st1))"

subsection \<open>\<open>parse_args\<close> and \<open>main\<close>\<close>

text \<open>
  \<open>parse_args\<close> returns an \<open>argparse.Namespace\<close>. No option is declared \<open>required\<close>, so an
  option that is not on the command line is \<open>None\<close> in the namespace. The namespace is the
  input of the model.
\<close>

record namespace =
  contract_code_path :: "string option"
  calldata :: "string option"
  num_runs :: "int option"

text \<open>
  \<open>main\<close> returns how the process ends (\<open>Inr ()\<close>: normally; \<open>Inl e\<close>: with the uncaught
  exception \<open>e\<close>) and everything it did until then.
\<close>

definition main ::
  "'s engine \<Rightarrow> (nat \<Rightarrow> int) \<Rightarrow> (string \<Rightarrow> string option) \<Rightarrow> namespace
     \<Rightarrow> (error + unit) \<times> event list" where
  "main eng clock fs args =
     (case load_contract_data fs (contract_code_path args) of
        Inl e \<Rightarrow> (Inl e, [])
      | Inr contract_data \<Rightarrow>
          (let st = construct_evm eng in
           case fromhex_arg (calldata args) of
             Inl e \<Rightarrow> (Inl e, trace st)
           | Inr call_data \<Rightarrow>
               (let (r, st') = benchmark eng clock CALLER_ADDRESS contract_data call_data
                                 (num_runs args) st
                in (r, trace st'))))"

subsection \<open>Reading a trace\<close>

fun is_deploy :: "event \<Rightarrow> bool" where
  "is_deploy (DeployCall _ _ _) = True"
| "is_deploy _ = False"

fun is_call :: "event \<Rightarrow> bool" where
  "is_call (MessageCall _ _ _ _) = True"
| "is_call _ = False"

fun is_print :: "event \<Rightarrow> bool" where
  "is_print (Print _) = True"
| "is_print _ = False"

text \<open>The lines on standard output, in the order they were printed.\<close>

fun printed :: "event list \<Rightarrow> real list" where
  "printed [] = []"
| "printed (Print v # es) = v # printed es"
| "printed (_ # es) = printed es"

text \<open>
  The four events of the timed call that takes the clock readings \<open>k\<close> and \<open>k + 1\<close>.
\<close>

definition timed_call ::
  "(nat \<Rightarrow> int) \<Rightarrow> address \<Rightarrow> address \<Rightarrow> bytes \<Rightarrow> nat \<Rightarrow> event list" where
  "timed_call clock caller_address contract_address call_data k =
     [PerfCounter (clock k),
      MessageCall caller_address contract_address call_data GAS_LIMIT,
      PerfCounter (clock (Suc k)),
      Print (real_of_int (clock (Suc k) - clock k) / 1000000)]"

text \<open>
  The deployment \<open>_benchmark\<close> performs from the state \<open>st\<close>: what \<open>evm.deploy\<close> returns
  (the contract address and the engine after it), and whether \<open>evm.result.is_success\<close> holds
  afterwards.
\<close>

definition deployed :: "'s engine \<Rightarrow> address \<Rightarrow> bytes \<Rightarrow> 's state \<Rightarrow> address \<times> 's" where
  "deployed eng caller_address contract_data st =
     deploy eng caller_address contract_data GAS_LIMIT (evm st)"

definition deployment_succeeds :: "'s engine \<Rightarrow> address \<Rightarrow> bytes \<Rightarrow> 's state \<Rightarrow> bool" where
  "deployment_succeeds eng caller_address contract_data st =
     is_success (result eng (snd (deployed eng caller_address contract_data st)))"

text \<open>The events of \<open>n\<close> timed calls in a row, the first one taking the clock reading \<open>k\<close>.\<close>

definition timed_calls ::
  "(nat \<Rightarrow> int) \<Rightarrow> address \<Rightarrow> address \<Rightarrow> bytes \<Rightarrow> nat \<Rightarrow> nat \<Rightarrow> event list" where
  "timed_calls clock caller_address contract_address call_data k n =
     concat (map (\<lambda>i. timed_call clock caller_address contract_address call_data (k + 2 * i)) [0..<n])"

text \<open>
  An event respects the constants of a run: a deployment is made by \<open>CALLER_ADDRESS\<close> with
  \<open>GAS_LIMIT\<close> and the given code; a call is made by \<open>CALLER_ADDRESS\<close> with \<open>GAS_LIMIT\<close>, to
  the given contract, with the given call data.
\<close>

fun uses_fixed :: "bytes \<Rightarrow> address \<Rightarrow> bytes \<Rightarrow> event \<Rightarrow> bool" where
  "uses_fixed code handle d (DeployCall deployer c gas) =
     (deployer = CALLER_ADDRESS \<and> c = code \<and> gas = GAS_LIMIT)"
| "uses_fixed code handle d (MessageCall caller to cd gas) =
     (caller = CALLER_ADDRESS \<and> to = handle \<and> cd = d \<and> gas = GAS_LIMIT)"
| "uses_fixed code handle d _ = True"

subsection \<open>Shapes of input\<close>

text \<open>
  Text that \<open>bytes.fromhex\<close> is bound to reject: it has a character that is neither a
  hexadecimal digit nor ASCII whitespace, or its hexadecimal digits are odd in number.
\<close>

definition malformed_hex :: "string \<Rightarrow> bool" where
  "malformed_hex s =
     (list_ex (\<lambda>c. \<not> is_hex_digit c \<and> \<not> py_isspace c) s \<or> odd (length (filter is_hex_digit s)))"





text \<open>
  A required input is absent: the path option, the file it names, the call data option or
  the run count option.
\<close>

definition missing_input :: "(string \<Rightarrow> string option) \<Rightarrow> namespace \<Rightarrow> bool" where
  "missing_input fs args =
     ((case contract_code_path args of None \<Rightarrow> True | Some p \<Rightarrow> fs p = None)
      \<or> calldata args = None \<or> num_runs args = None)"

subsection \<open>Sample environments\<close>

text \<open>
  Three engines with a number for a state: one that reports success for everything, one that
  reports failure for everything, and one that reports success after a deployment (state 1)
  and failure after a call (state 2). A clock that advances 250 ns between two
  readings. A file system with three files.
\<close>

definition accepting_engine :: "nat engine" where
  "accepting_engine =
     \<lparr>EVM = 0,
      deploy = (\<lambda>deployer code gas s. (''0xc0de'', Suc s)),
      result = (\<lambda>s. \<lparr>is_success = True, detail = ''Return''\<rparr>),
      message_call = (\<lambda>caller to calldata gas s. ([], Suc s))\<rparr>"

definition refusing_engine :: "nat engine" where
  "refusing_engine =
     \<lparr>EVM = 0,
      deploy = (\<lambda>deployer code gas s. (''0xc0de'', Suc s)),
      result = (\<lambda>s. \<lparr>is_success = False, detail = ''Revert''\<rparr>),
      message_call = (\<lambda>caller to calldata gas s. ([], Suc s))\<rparr>"

definition reverting_engine :: "nat engine" where
  "reverting_engine =
     \<lparr>EVM = 0,
      deploy = (\<lambda>deployer code gas s. (''0xc0de'', 1)),
      result = (\<lambda>s. \<lparr>is_success = (s = 1), detail = ''Revert''\<rparr>),
      message_call = (\<lambda>caller to calldata gas s. ([], 2))\<rparr>"

definition steady_clock :: "nat \<Rightarrow> int" where
  "steady_clock k = 1000 + 250 * int k"

definition sample_fs :: "string \<Rightarrow> string option" where
  "sample_fs p =
     (if p = ''contract.hex'' then Some ''600035600052''
      else if p = ''spaced.hex'' then Some ''60 00''
      else if p = ''split.hex'' then Some ''6 0''
      else None)"

section \<open>Properties\<close>

subsection \<open>Hexadecimal digits\<close>

lemma hex_digit_not_space: "is_hex_digit c \<Longrightarrow> \<not> py_isspace c"
  by (auto simp: is_hex_digit_def digit_value_def py_isspace_def Let_def split: if_splits)

lemma digit_value_less: "digit_value c = Some v \<Longrightarrow> v < 16"
  by (auto simp: digit_value_def Let_def split: if_splits)

lemma hex_digit_digit_value: "digit_value c = Some v \<Longrightarrow> hex_digit v = ascii_lower c"
  by (auto simp: digit_value_def hex_digit_def ascii_lower_def Let_def split: if_splits)

lemma unat_byte: "hi < 16 \<Longrightarrow> lo < 16 \<Longrightarrow> unat (of_nat (hi * 16 + lo) :: byte) = hi * 16 + lo"
  by (subst unat_of_nat) simp

lemma hex_byte:
  assumes "digit_value c = Some hi" "digit_value d = Some lo"
  shows "hex [of_nat (hi * 16 + lo)] = [ascii_lower c, ascii_lower d]"
proof -
  have h: "hi < 16" and l: "lo < 16"
    using assms by (auto dest: digit_value_less)
  then have "unat (of_nat (hi * 16 + lo) :: byte) = hi * 16 + lo"
    by (rule unat_byte)
  moreover have "(hi * 16 + lo) div 16 = hi" "(hi * 16 + lo) mod 16 = lo"
    using h l by simp_all
  ultimately show ?thesis
    using assms by (simp add: hex_digit_digit_value)
qed

lemma fromhex_valid_hex:
  "valid_hex s \<Longrightarrow> \<exists>bs. fromhex s = Inr bs \<and> hex bs = map ascii_lower s"
proof (induction s rule: fromhex.induct)
  case 1
  then show ?case by simp
next
  case (2 c)
  then show ?case by (simp add: valid_hex_def)
next
  case (3 c d cs)
  from "3.prems" have c: "is_hex_digit c" and d: "is_hex_digit d" and cs: "valid_hex cs"
    by (simp_all add: valid_hex_def)
  from c obtain hi where hi: "digit_value c = Some hi"
    by (auto simp: is_hex_digit_def)
  from d obtain lo where lo: "digit_value d = Some lo"
    by (auto simp: is_hex_digit_def)
  from "3.IH"(2) [OF _ hi lo] c cs obtain bs where bs: "fromhex cs = Inr bs" "hex bs = map ascii_lower cs"
    by (auto dest: hex_digit_not_space)
  have "fromhex (c # d # cs) = Inr (of_nat (hi * 16 + lo) # bs)"
    using c hi lo bs by (simp add: hex_digit_not_space)
  moreover have "hex (of_nat (hi * 16 + lo) # bs) = map ascii_lower (c # d # cs)"
    using hex_byte [OF hi lo] bs by simp
  ultimately show ?case by blast
qed

lemma fromhex_error: "fromhex s = Inl e \<Longrightarrow> e = ValueError"
  by (induction s arbitrary: e rule: fromhex.induct)
    (auto split: if_splits option.splits sum.splits)

lemma fromhex_malformed: "malformed_hex s \<Longrightarrow> fromhex s = Inl ValueError"
proof (induction s rule: fromhex.induct)
  case 1
  then show ?case by (simp add: malformed_hex_def)
next
  case (2 c)
  show ?case
  proof (cases "py_isspace c")
    case True
    then have "\<not> is_hex_digit c"
      using hex_digit_not_space by blast
    with True "2.prems" show ?thesis
      by (simp add: malformed_hex_def)
  next
    case False
    then show ?thesis by simp
  qed
next
  case (3 c d cs)
  show ?case
  proof (cases "py_isspace c")
    case True
    then have "\<not> is_hex_digit c"
      using hex_digit_not_space by blast
    with True "3.prems" have "malformed_hex (d # cs)"
      by (simp add: malformed_hex_def)
    with True "3.IH"(1) show ?thesis by simp
  next
    case False
    show ?thesis
    proof (cases "digit_value c")
      case None
      with False show ?thesis by simp
    next
      case (Some hi)
      note hi = this
      show ?thesis
      proof (cases "digit_value d")
        case None
        with False hi show ?thesis by simp
      next
        case (Some lo)
        from hi Some "3.prems" have "malformed_hex cs"
          by (simp add: malformed_hex_def is_hex_digit_def)
        with "3.IH"(2) [OF False hi Some] have "fromhex cs = Inl ValueError" .
        with False hi Some show ?thesis by simp
      qed
    qed
  qed
qed








subsection \<open>The events of the loop\<close>

lemma printed_append: "printed (xs @ ys) = printed xs @ printed ys"
  by (induction xs rule: printed.induct) simp_all

lemma loop_body_trace:
  "trace (loop_body eng clock a c d st) = trace st @ timed_call clock a c d (reads st)"
  by (simp add: loop_body_def perf_counter_ns_def bench_def print_line_def timed_call_def
      split: prod.splits)

lemma loop_body_reads: "reads (loop_body eng clock a c d st) = reads st + 2"
  by (simp add: loop_body_def perf_counter_ns_def bench_def print_line_def split: prod.splits)

lemma timed_calls_0: "timed_calls clock a c d k 0 = []"
  by (simp add: timed_calls_def)

lemma timed_calls_Suc:
  "timed_calls clock a c d k (Suc n) = timed_call clock a c d k @ timed_calls clock a c d (k + 2) n"
proof -
  have "[0..<Suc n] = 0 # map Suc [0..<n]"
    by (simp add: upt_conv_Cons map_Suc_upt del: upt_Suc)
  then show ?thesis
    by (simp add: timed_calls_def comp_def del: upt_Suc)
qed

lemma bench_loop_trace:
  "trace (bench_loop eng clock a c d n st) = trace st @ timed_calls clock a c d (reads st) n"
  by (induction n arbitrary: st)
    (simp_all add: timed_calls_0 timed_calls_Suc loop_body_trace loop_body_reads)

lemma bench_loop_reads: "reads (bench_loop eng clock a c d n st) = reads st + 2 * n"
  by (induction n arbitrary: st) (simp_all add: loop_body_reads)

lemma printed_timed_calls:
  "printed (timed_calls clock a c d k n) =
     map (\<lambda>i. real_of_int (clock (Suc (k + 2 * i)) - clock (k + 2 * i)) / 1000000) [0..<n]"
  by (induction n) (simp_all add: timed_calls_def timed_call_def printed_append)

lemma length_printed_timed_calls: "length (printed (timed_calls clock a c d k n)) = n"
  by (simp add: printed_timed_calls)

lemma deploy_free_timed_calls: "filter is_deploy (timed_calls clock a c d k n) = []"
  by (induction n) (simp_all add: timed_calls_def timed_call_def)

lemma calls_timed_calls:
  "filter is_call (timed_calls clock a c d k n) = replicate n (MessageCall a c d GAS_LIMIT)"
  by (induction n) (simp_all add: timed_calls_def timed_call_def replicate_append_same)

lemma uses_fixed_timed_calls:
  "list_all (uses_fixed code handle d) (timed_calls clock CALLER_ADDRESS handle d k n)"
  by (induction n) (simp_all add: timed_calls_def timed_call_def)

subsection \<open>The three ways \<open>_benchmark\<close> ends\<close>

lemma benchmark_refused:
  assumes "\<not> deployment_succeeds eng a code st"
  shows "benchmark eng clock a code d n st =
     (Inl (AssertionError (EngineResult (result eng (snd (deployed eng a code st))))),
      st\<lparr>evm := snd (deployed eng a code st),
         trace := trace st @ [DeployCall a code GAS_LIMIT]\<rparr>)"
  using assms
  by (cases "deploy eng a code GAS_LIMIT (evm st)")
    (simp add: benchmark_def deployment_succeeds_def deployed_def Let_def)

lemma benchmark_no_count:
  assumes "deployment_succeeds eng a code st"
  shows "benchmark eng clock a code d None st =
     (Inl TypeError,
      st\<lparr>evm := snd (deployed eng a code st),
         trace := trace st @ [DeployCall a code GAS_LIMIT]\<rparr>)"
  using assms
  by (cases "deploy eng a code GAS_LIMIT (evm st)")
    (simp add: benchmark_def deployment_succeeds_def deployed_def Let_def)

lemma benchmark_runs:
  assumes "deployment_succeeds eng a code st"
  shows "fst (benchmark eng clock a code d (Some n) st) = Inr ()"
    and "trace (snd (benchmark eng clock a code d (Some n) st)) =
      trace st @ DeployCall a code GAS_LIMIT #
        timed_calls clock a (fst (deployed eng a code st)) d (reads st) (range_len n)"
  using assms
  by (cases "deploy eng a code GAS_LIMIT (evm st)";
      simp add: benchmark_def deployment_succeeds_def deployed_def bench_loop_trace Let_def)+

lemma benchmark_trace_cases:
  "trace (snd (benchmark eng clock a code d n st)) =
     trace st @ DeployCall a code GAS_LIMIT #
       (case n of
          None \<Rightarrow> []
        | Some m \<Rightarrow>
            if deployment_succeeds eng a code st
            then timed_calls clock a (fst (deployed eng a code st)) d (reads st) (range_len m)
            else [])"
proof (cases "deployment_succeeds eng a code st")
  case True
  then show ?thesis
    by (cases n) (simp_all add: benchmark_no_count benchmark_runs)
next
  case False
  then show ?thesis
    by (cases n) (simp_all add: benchmark_refused)
qed

subsection \<open>The steps of \<open>main\<close>\<close>

lemma construct_evm_simps:
  "trace (construct_evm eng) = []" "reads (construct_evm eng) = 0" "evm (construct_evm eng) = EVM eng"
  by (simp_all add: construct_evm_def)

lemma main_early:
  "load_contract_data fs (contract_code_path args) = Inl e \<Longrightarrow> main eng clock fs args = (Inl e, [])"
  by (simp add: main_def)

lemma main_calldata:
  "load_contract_data fs (contract_code_path args) = Inr code \<Longrightarrow>
   fromhex_arg (calldata args) = Inl e \<Longrightarrow> main eng clock fs args = (Inl e, [])"
  by (simp add: main_def construct_evm_def)

lemma main_run:
  "load_contract_data fs (contract_code_path args) = Inr code \<Longrightarrow>
   fromhex_arg (calldata args) = Inr d \<Longrightarrow>
   main eng clock fs args =
     (fst (benchmark eng clock CALLER_ADDRESS code d (num_runs args) (construct_evm eng)),
      trace (snd (benchmark eng clock CALLER_ADDRESS code d (num_runs args) (construct_evm eng))))"
  by (simp add: main_def split: prod.splits)

subsection \<open>The loop does not read \<open>evm.result\<close>\<close>

lemma loop_body_result_update:
  "loop_body (eng\<lparr>result := r\<rparr>) clock a c d st = loop_body eng clock a c d st"
  by (simp add: loop_body_def bench_def)

lemma bench_loop_result_update:
  "bench_loop (eng\<lparr>result := r\<rparr>) clock a c d n st = bench_loop eng clock a c d n st"
  by (induction n arbitrary: st) (simp_all add: loop_body_result_update)

section \<open>The claims\<close>

subsection \<open>One deployment, then the timed calls\<close>

text \<open>
  Claim C1, as amended. For every run count \<open>N \<ge> 0\<close>, \<open>_benchmark\<close> makes exactly one
  deployment call, and it is the first thing it does: every clock reading, call and printed
  line comes after it. It prints exactly \<open>N\<close> lines when the engine reports the deployment
  successful, and none when the engine reports it failed (the assertion then ends the run).
  For \<open>N = 0\<close> it deploys once and prints nothing.
\<close>

theorem deploys_once_and_emits:
  "\<exists>evs. trace (snd (benchmark eng clock a code d (Some (int N)) st)) =
            trace st @ DeployCall a code GAS_LIMIT # evs
     \<and> filter is_deploy evs = []
     \<and> length (printed evs) = (if deployment_succeeds eng a code st then N else 0)"
  by (simp add: benchmark_trace_cases range_len_def deploy_free_timed_calls
      length_printed_timed_calls)

theorem deploys_once_and_emits_witness:
  "deployment_succeeds accepting_engine CALLER_ADDRESS [0x60, 0] (construct_evm accepting_engine)
   \<and> (\<exists>evs. trace (snd (benchmark accepting_engine steady_clock CALLER_ADDRESS [0x60, 0] []
              (Some 3) (construct_evm accepting_engine))) =
            DeployCall CALLER_ADDRESS [0x60, 0] GAS_LIMIT # evs
        \<and> filter is_deploy evs = [] \<and> length (printed evs) = 3)"
proof -
  have h: "deployment_succeeds accepting_engine CALLER_ADDRESS [0x60, 0]
      (construct_evm accepting_engine)"
    by (simp add: deployment_succeeds_def accepting_engine_def)
  show ?thesis
    using h deploys_once_and_emits [of accepting_engine steady_clock CALLER_ADDRESS "[0x60, 0]"
        "[]" 3 "construct_evm accepting_engine"]
    by (simp add: construct_evm_simps)
qed

text \<open>
  Claim C1 as stated, "for every run count the driver emits exactly \<open>N\<close> lines", fails when
  the deployment fails: with a run count of 3 and an engine that reports failure, no line is
  printed.
\<close>

theorem refused_deployment_emits_nothing:
  "length (printed (trace (snd (benchmark refusing_engine steady_clock CALLER_ADDRESS [0x60, 0] []
      (Some 3) (construct_evm refusing_engine))))) \<noteq> 3"
  by (simp add: benchmark_def refusing_engine_def construct_evm_def)

subsection \<open>Deployment failure\<close>

text \<open>
  Claim C2. If the engine reports that the deployment failed (\<open>evm.result.is_success\<close> is
  false), \<open>_benchmark\<close> ends with the \<open>AssertionError\<close> of
  \<open>assert evm.result.is_success, evm.result\<close>, which carries \<open>evm.result\<close> as the engine left
  it. The deployment is the only thing it has done by then: it has made no call and printed
  no line, whatever the run count is (also when it is absent).
\<close>

theorem failed_deployment_is_fatal:
  assumes "\<not> deployment_succeeds eng a code st"
  shows "fst (benchmark eng clock a code d n st) =
           Inl (AssertionError (EngineResult (result eng (snd (deployed eng a code st)))))
       \<and> trace (snd (benchmark eng clock a code d n st)) = trace st @ [DeployCall a code GAS_LIMIT]
       \<and> filter is_call (trace (snd (benchmark eng clock a code d n st))) = filter is_call (trace st)
       \<and> printed (trace (snd (benchmark eng clock a code d n st))) = printed (trace st)"
  using assms by (simp add: benchmark_refused printed_append)

theorem failed_deployment_is_fatal_witness:
  "\<not> deployment_succeeds refusing_engine CALLER_ADDRESS [0x60, 0] (construct_evm refusing_engine)
   \<and> fst (benchmark refusing_engine steady_clock CALLER_ADDRESS [0x60, 0] [] (Some 3)
        (construct_evm refusing_engine)) =
       Inl (AssertionError (EngineResult \<lparr>is_success = False, detail = ''Revert''\<rparr>))
   \<and> trace (snd (benchmark refusing_engine steady_clock CALLER_ADDRESS [0x60, 0] [] (Some 3)
        (construct_evm refusing_engine))) = [DeployCall CALLER_ADDRESS [0x60, 0] GAS_LIMIT]"
proof -
  have h: "\<not> deployment_succeeds refusing_engine CALLER_ADDRESS [0x60, 0]
      (construct_evm refusing_engine)"
    by (simp add: deployment_succeeds_def refusing_engine_def)
  show ?thesis
    using h failed_deployment_is_fatal [OF h, of steady_clock "[]" "Some 3"]
    by (simp add: refusing_engine_def construct_evm_def)
qed

subsection \<open>The lines of a run\<close>




subsection \<open>The result of a call\<close>

text \<open>
  Claim C4. \<open>_benchmark\<close> never looks at the result of a call. For every engine that reports
  the deployment successful, whatever it reports after each call and whatever
  \<open>evm.message_call\<close> returns, \<open>_benchmark\<close> with a run count \<open>N\<close> returns normally; after
  the deployment its events are exactly \<open>N\<close> timed calls, so it makes all \<open>N\<close> calls and
  prints one line after each of them. Replacing \<open>evm.result\<close> by anything that still reports
  the deployment successful, so also by one that reports every call failed, leaves the whole
  outcome of \<open>_benchmark\<close> the same.
\<close>

theorem call_results_never_inspected:
  assumes "deployment_succeeds eng a code st"
  shows "fst (benchmark eng clock a code d (Some (int N)) st) = Inr ()
     \<and> trace (snd (benchmark eng clock a code d (Some (int N)) st)) =
         trace st @ DeployCall a code GAS_LIMIT #
           timed_calls clock a (fst (deployed eng a code st)) d (reads st) N
     \<and> filter is_call (trace (snd (benchmark eng clock a code d (Some (int N)) st))) =
         filter is_call (trace st) @
           replicate N (MessageCall a (fst (deployed eng a code st)) d GAS_LIMIT)
     \<and> length (printed (trace (snd (benchmark eng clock a code d (Some (int N)) st)))) =
         length (printed (trace st)) + N
     \<and> (is_success (r (snd (deployed eng a code st))) \<longrightarrow>
          benchmark (eng\<lparr>result := r\<rparr>) clock a code d (Some (int N)) st =
            benchmark eng clock a code d (Some (int N)) st)"
proof -
  have n: "range_len (int N) = N"
    by (simp add: range_len_def)
  have t: "trace (snd (benchmark eng clock a code d (Some (int N)) st)) =
         trace st @ DeployCall a code GAS_LIMIT #
           timed_calls clock a (fst (deployed eng a code st)) d (reads st) N"
    using assms by (simp add: benchmark_runs n)
  have same: "benchmark (eng\<lparr>result := r\<rparr>) clock a code d (Some (int N)) st =
      benchmark eng clock a code d (Some (int N)) st"
    if "is_success (r (snd (deployed eng a code st)))"
    using that assms
    by (cases "deploy eng a code GAS_LIMIT (evm st)")
      (simp add: benchmark_def deployment_succeeds_def deployed_def Let_def
        bench_loop_result_update)
  show ?thesis
    using assms same
    by (simp add: t benchmark_runs printed_append length_printed_timed_calls
        calls_timed_calls)
qed

theorem call_results_never_inspected_witness:
  "deployment_succeeds reverting_engine CALLER_ADDRESS [0x60, 0] (construct_evm reverting_engine)
   \<and> \<not> is_success (result reverting_engine (evm (snd (benchmark reverting_engine steady_clock
          CALLER_ADDRESS [0x60, 0] [] (Some 3) (construct_evm reverting_engine)))))
   \<and> fst (benchmark reverting_engine steady_clock CALLER_ADDRESS [0x60, 0] [] (Some 3)
        (construct_evm reverting_engine)) = Inr ()
   \<and> filter is_call (trace (snd (benchmark reverting_engine steady_clock CALLER_ADDRESS [0x60, 0] []
        (Some 3) (construct_evm reverting_engine)))) =
       [MessageCall CALLER_ADDRESS ''0xc0de'' [] GAS_LIMIT,
        MessageCall CALLER_ADDRESS ''0xc0de'' [] GAS_LIMIT,
        MessageCall CALLER_ADDRESS ''0xc0de'' [] GAS_LIMIT]
   \<and> length (printed (trace (snd (benchmark reverting_engine steady_clock CALLER_ADDRESS [0x60, 0] []
        (Some 3) (construct_evm reverting_engine))))) = 3"
proof -
  have h: "deployment_succeeds reverting_engine CALLER_ADDRESS [0x60, 0]
      (construct_evm reverting_engine)"
    by (simp add: deployment_succeeds_def deployed_def reverting_engine_def)
  have a: "fst (deployed reverting_engine CALLER_ADDRESS [0x60, 0]
      (construct_evm reverting_engine)) = ''0xc0de''"
    by (simp add: deployed_def reverting_engine_def)
  have f: "\<not> is_success (result reverting_engine (evm (snd (benchmark reverting_engine steady_clock
      CALLER_ADDRESS [0x60, 0] [] (Some 3) (construct_evm reverting_engine)))))"
    by (simp add: benchmark_def range_len_def numeral_3_eq_3 loop_body_def bench_def
        perf_counter_ns_def print_line_def reverting_engine_def construct_evm_def)
  from call_results_never_inspected [OF h, of steady_clock "[]" 3 "result reverting_engine"]
  have "fst (benchmark reverting_engine steady_clock CALLER_ADDRESS [0x60, 0] [] (Some 3)
        (construct_evm reverting_engine)) = Inr ()"
    and "filter is_call (trace (snd (benchmark reverting_engine steady_clock CALLER_ADDRESS
        [0x60, 0] [] (Some 3) (construct_evm reverting_engine)))) =
       replicate 3 (MessageCall CALLER_ADDRESS ''0xc0de'' [] GAS_LIMIT)"
    and "length (printed (trace (snd (benchmark reverting_engine steady_clock CALLER_ADDRESS
        [0x60, 0] [] (Some 3) (construct_evm reverting_engine))))) = 3"
    by (simp_all add: a construct_evm_simps length_printed_timed_calls calls_timed_calls)
  with h f show ?thesis
    by (simp add: numeral_3_eq_3)
qed

subsection \<open>Malformed hexadecimal input\<close>

text \<open>
  Claim C5, as amended. Let the text have a character that is neither a hexadecimal digit nor
  ASCII whitespace (as \<open>"60g0"\<close> has), or an odd number of hexadecimal digits. If it is the
  content of the contract code file, or if it is the call data and the contract code file
  loads, the program ends with the \<open>ValueError\<close> of \<open>bytes.fromhex\<close> before it has touched
  the engine: no deployment, no line.
\<close>

theorem malformed_hex_is_fatal:
  assumes "malformed_hex s"
    and "(contract_code_path args = Some p \<and> fs p = Some s)
       \<or> (load_contract_data fs (contract_code_path args) = Inr code \<and> calldata args = Some s)"
  shows "main eng clock fs args = (Inl ValueError, [])"
proof -
  have s: "fromhex s = Inl ValueError"
    using assms(1) by (rule fromhex_malformed)
  from assms(2) show ?thesis
  proof
    assume "contract_code_path args = Some p \<and> fs p = Some s"
    with s have "load_contract_data fs (contract_code_path args) = Inl ValueError"
      by (simp add: load_contract_data_def)
    then show ?thesis by (rule main_early)
  next
    assume a: "load_contract_data fs (contract_code_path args) = Inr code \<and> calldata args = Some s"
    with s have "fromhex_arg (calldata args) = Inl ValueError"
      by (simp add: fromhex_arg_def)
    with a show ?thesis by (simp add: main_calldata)
  qed
qed

theorem malformed_hex_is_fatal_witness:
  "malformed_hex ''60g0''
   \<and> load_contract_data sample_fs (Some ''contract.hex'') = Inr [0x60, 0, 0x35, 0x60, 0, 0x52]
   \<and> main accepting_engine steady_clock sample_fs
        \<lparr>contract_code_path = Some ''contract.hex'', calldata = Some ''60g0'', num_runs = Some 3\<rparr>
       = (Inl ValueError, [])"
proof -
  have m: "malformed_hex ''60g0''"
    by (simp add: malformed_hex_def is_hex_digit_def digit_value_def py_isspace_def)
  have l: "load_contract_data sample_fs (Some ''contract.hex'') = Inr [0x60, 0, 0x35, 0x60, 0, 0x52]"
    by (simp add: load_contract_data_def sample_fs_def digit_value_def py_isspace_def)
  show ?thesis
    using m l
      malformed_hex_is_fatal [of "''60g0''"
        "\<lparr>contract_code_path = Some ''contract.hex'', calldata = Some ''60g0'', num_runs = Some 3\<rparr>"
        "''contract.hex''" sample_fs "[0x60, 0, 0x35, 0x60, 0, 0x52]" accepting_engine steady_clock]
    by simp
qed

text \<open>
  Claim C5 as stated, "any input of odd length or with a non-hexadecimal character is fatal",
  fails on whitespace: the file content \<open>"60 00"\<close> has five characters, one of them a space,
  and the program deploys the two bytes and prints a line.
\<close>

theorem spaced_hex_is_deployed:
  "\<not> valid_hex ''60 00''
   \<and> main accepting_engine steady_clock sample_fs
        \<lparr>contract_code_path = Some ''spaced.hex'', calldata = Some [], num_runs = Some 1\<rparr>
       = (Inr (),
          [DeployCall CALLER_ADDRESS [0x60, 0] GAS_LIMIT,
           PerfCounter 1000, MessageCall CALLER_ADDRESS ''0xc0de'' [] GAS_LIMIT, PerfCounter 1250,
           Print (1 / 4000)])"
  by (simp add: valid_hex_def main_def load_contract_data_def sample_fs_def fromhex_arg_def
      digit_value_def py_isspace_def construct_evm_def benchmark_def accepting_engine_def
      range_len_def loop_body_def bench_def perf_counter_ns_def print_line_def steady_clock_def)

subsection \<open>Decoding and encoding\<close>

text \<open>
  Claim C6. For every valid hexadecimal string \<open>S\<close> (hexadecimal digits only, an even number
  of them), \<open>bytes.fromhex\<close> succeeds, and encoding its result with \<open>bytes.hex\<close> gives \<open>S\<close>
  in lower case. The same holds when \<open>S\<close> is the content of the file that
  \<open>_load_contract_data\<close> reads.
\<close>

theorem hex_round_trip:
  assumes "valid_hex s"
  shows "(\<exists>bs. fromhex s = Inr bs \<and> hex bs = map ascii_lower s)
     \<and> (fs p = Some s \<longrightarrow>
          (\<exists>bs. load_contract_data fs (Some p) = Inr bs \<and> hex bs = map ascii_lower s))"
  using fromhex_valid_hex [OF assms] by (simp add: load_contract_data_def)

theorem hex_round_trip_witness:
  "valid_hex ''60aB'' \<and> fromhex ''60aB'' = Inr [0x60, 0xAB] \<and> hex [0x60, 0xAB] = ''60ab''
   \<and> (\<exists>bs. fromhex ''60aB'' = Inr bs \<and> hex bs = map ascii_lower ''60aB'')"
proof -
  have v: "valid_hex ''60aB''"
    by (simp add: valid_hex_def is_hex_digit_def digit_value_def)
  have f: "fromhex ''60aB'' = Inr [0x60, 0xAB]"
    by (simp add: digit_value_def py_isspace_def)
  have h: "hex [0x60, 0xAB] = ''60ab''"
    by code_simp
  show ?thesis
    using v f h hex_round_trip [OF v, of sample_fs "''contract.hex''"] by simp
qed

subsection \<open>Missing input\<close>

text \<open>
  Claim C7, as amended. If a required input is absent (the path option, the file, the call
  data option, the run count option), the program ends with an uncaught exception, having
  made no call and printed no line. The exception is that of the first step that fails, in
  the order: path assertion (\<open>AssertionError\<close>, "Contract code path is required"), \<open>open\<close>
  (\<open>OSError\<close>), decoding the file, decoding the call data (\<open>TypeError\<close> when it is absent),
  deployment and its assertion, \<open>range(num_runs)\<close> (\<open>TypeError\<close> when the run count is
  absent). So an absent run count is noticed only after the deployment has been made, and only
  if the deployment succeeded.
\<close>

theorem missing_input_is_fatal:
  assumes "missing_input fs args"
  shows "(\<exists>e. fst (main eng clock fs args) = Inl e)
     \<and> printed (snd (main eng clock fs args)) = []
     \<and> filter is_call (snd (main eng clock fs args)) = []
     \<and> (contract_code_path args = None \<longrightarrow>
          main eng clock fs args =
            (Inl (AssertionError (Message ''Contract code path is required'')), []))
     \<and> (contract_code_path args = Some p \<and> fs p = None \<longrightarrow>
          main eng clock fs args = (Inl OSError, []))
     \<and> (load_contract_data fs (contract_code_path args) = Inr code \<and> calldata args = None \<longrightarrow>
          main eng clock fs args = (Inl TypeError, []))
     \<and> (load_contract_data fs (contract_code_path args) = Inr code
          \<and> fromhex_arg (calldata args) = Inr d \<and> num_runs args = None \<longrightarrow>
          main eng clock fs args =
            (if deployment_succeeds eng CALLER_ADDRESS code (construct_evm eng) then Inl TypeError
             else Inl (AssertionError (EngineResult
                    (result eng (snd (deployed eng CALLER_ADDRESS code (construct_evm eng)))))),
             [DeployCall CALLER_ADDRESS code GAS_LIMIT]))"
proof -
  have last: "main eng clock fs args =
      (if deployment_succeeds eng CALLER_ADDRESS code (construct_evm eng) then Inl TypeError
       else Inl (AssertionError (EngineResult
              (result eng (snd (deployed eng CALLER_ADDRESS code (construct_evm eng)))))),
       [DeployCall CALLER_ADDRESS code GAS_LIMIT])"
    if "load_contract_data fs (contract_code_path args) = Inr code"
      and "fromhex_arg (calldata args) = Inr d" and "num_runs args = None" for code d
    using that
    by (simp add: main_run benchmark_no_count benchmark_refused construct_evm_simps)
  have path: "main eng clock fs args =
      (Inl (AssertionError (Message ''Contract code path is required'')), [])"
    if "contract_code_path args = None"
    using that by (simp add: main_early load_contract_data_def)
  have nofile: "main eng clock fs args = (Inl OSError, [])"
    if "contract_code_path args = Some p" "fs p = None" for p
    using that by (simp add: main_early load_contract_data_def)
  have cd: "main eng clock fs args = (Inl TypeError, [])"
    if "load_contract_data fs (contract_code_path args) = Inr code" "calldata args = None" for code
    using that by (simp add: main_calldata fromhex_arg_def)
  have general: "(\<exists>e. fst (main eng clock fs args) = Inl e)
      \<and> printed (snd (main eng clock fs args)) = []
      \<and> filter is_call (snd (main eng clock fs args)) = []"
  proof (cases "load_contract_data fs (contract_code_path args)")
    case (Inl e)
    then show ?thesis by (simp add: main_early)
  next
    case (Inr code)
    note code = this
    show ?thesis
    proof (cases "fromhex_arg (calldata args)")
      case (Inl e)
      with code show ?thesis by (simp add: main_calldata)
    next
      case (Inr d)
      from code have "\<not> (case contract_code_path args of None \<Rightarrow> True | Some p \<Rightarrow> fs p = None)"
        by (auto simp: load_contract_data_def split: option.splits)
      moreover from Inr have "calldata args \<noteq> None"
        by (auto simp: fromhex_arg_def split: option.splits)
      ultimately have "num_runs args = None"
        using assms by (auto simp: missing_input_def)
      from last [OF code Inr this] show ?thesis by simp
    qed
  qed
  from general path nofile cd last show ?thesis
    by blast
qed

theorem missing_input_is_fatal_witness:
  "missing_input sample_fs
     \<lparr>contract_code_path = Some ''contract.hex'', calldata = None, num_runs = Some 3\<rparr>
   \<and> main accepting_engine steady_clock sample_fs
        \<lparr>contract_code_path = Some ''contract.hex'', calldata = None, num_runs = Some 3\<rparr>
       = (Inl TypeError, [])"
proof -
  have h: "missing_input sample_fs
     \<lparr>contract_code_path = Some ''contract.hex'', calldata = None, num_runs = Some 3\<rparr>"
    by (simp add: missing_input_def)
  have l: "load_contract_data sample_fs (Some ''contract.hex'') = Inr [0x60, 0, 0x35, 0x60, 0, 0x52]"
    by (simp add: load_contract_data_def sample_fs_def digit_value_def py_isspace_def)
  show ?thesis
    using h l
      missing_input_is_fatal [OF h, of accepting_engine steady_clock "''contract.hex''"
        "[0x60, 0, 0x35, 0x60, 0, 0x52]" "[]"]
    by simp
qed

text \<open>
  Claim C7 as stated, "an absent input is reported as a missing input", fails for an absent
  run count when the deployment fails: the run ends with the assertion on the deployment,
  carrying the engine's result, and the deployment has been made.
\<close>

theorem missing_count_reports_deployment:
  "num_runs \<lparr>contract_code_path = Some ''contract.hex'', calldata = Some [], num_runs = None\<rparr> = None
   \<and> main refusing_engine steady_clock sample_fs
        \<lparr>contract_code_path = Some ''contract.hex'', calldata = Some [], num_runs = None\<rparr>
       = (Inl (AssertionError (EngineResult \<lparr>is_success = False, detail = ''Revert''\<rparr>)),
          [DeployCall CALLER_ADDRESS [0x60, 0, 0x35, 0x60, 0, 0x52] GAS_LIMIT])"
  by (simp add: main_def load_contract_data_def sample_fs_def fromhex_arg_def
      digit_value_def py_isspace_def construct_evm_def benchmark_def refusing_engine_def)

subsection \<open>The constants of a run\<close>

text \<open>
  Claim C8. In a run of \<open>main\<close> that reaches the engine (the contract code and the call data
  decode), there is one deployment, made by \<open>CALLER_ADDRESS\<close> with \<open>GAS_LIMIT\<close> and the
  decoded code, and every call is made by \<open>CALLER_ADDRESS\<close> with \<open>GAS_LIMIT\<close>, to the address
  that this deployment returned, with the decoded call data.
\<close>

theorem constants_fixed_for_the_run:
  assumes "load_contract_data fs (contract_code_path args) = Inr code"
    and "fromhex_arg (calldata args) = Inr d"
  shows "list_all
           (uses_fixed code (fst (deployed eng CALLER_ADDRESS code (construct_evm eng))) d)
           (snd (main eng clock fs args))
     \<and> filter is_deploy (snd (main eng clock fs args)) =
         [DeployCall CALLER_ADDRESS code GAS_LIMIT]"
proof -
  have "snd (main eng clock fs args) =
      trace (snd (benchmark eng clock CALLER_ADDRESS code d (num_runs args) (construct_evm eng)))"
    using assms by (simp add: main_run)
  then show ?thesis
    by (simp add: benchmark_trace_cases construct_evm_simps uses_fixed_timed_calls
        deploy_free_timed_calls split: option.splits)
qed

theorem constants_fixed_for_the_run_witness:
  "load_contract_data sample_fs (Some ''contract.hex'') = Inr [0x60, 0, 0x35, 0x60, 0, 0x52]
   \<and> fromhex_arg (Some ''ab'') = Inr [0xAB]
   \<and> snd (main accepting_engine steady_clock sample_fs
        \<lparr>contract_code_path = Some ''contract.hex'', calldata = Some ''ab'', num_runs = Some 2\<rparr>) =
       [DeployCall CALLER_ADDRESS [0x60, 0, 0x35, 0x60, 0, 0x52] GAS_LIMIT,
        PerfCounter 1000, MessageCall CALLER_ADDRESS ''0xc0de'' [0xAB] GAS_LIMIT, PerfCounter 1250,
        Print (1 / 4000),
        PerfCounter 1500, MessageCall CALLER_ADDRESS ''0xc0de'' [0xAB] GAS_LIMIT, PerfCounter 1750,
        Print (1 / 4000)]
   \<and> list_all (uses_fixed [0x60, 0, 0x35, 0x60, 0, 0x52] ''0xc0de'' [0xAB])
        (snd (main accepting_engine steady_clock sample_fs
          \<lparr>contract_code_path = Some ''contract.hex'', calldata = Some ''ab'', num_runs = Some 2\<rparr>))"
proof -
  have l: "load_contract_data sample_fs (contract_code_path
      \<lparr>contract_code_path = Some ''contract.hex'', calldata = Some ''ab'', num_runs = Some 2\<rparr>) =
      Inr [0x60, 0, 0x35, 0x60, 0, 0x52]"
    by (simp add: load_contract_data_def sample_fs_def digit_value_def py_isspace_def)
  have c: "fromhex_arg (calldata
      \<lparr>contract_code_path = Some ''contract.hex'', calldata = Some ''ab'', num_runs = Some 2\<rparr>) =
      Inr [0xAB]"
    by (simp add: fromhex_arg_def digit_value_def py_isspace_def)
  have a: "fst (deployed accepting_engine CALLER_ADDRESS [0x60, 0, 0x35, 0x60, 0, 0x52]
      (construct_evm accepting_engine)) = ''0xc0de''"
    by (simp add: deployed_def accepting_engine_def)
  have t: "snd (main accepting_engine steady_clock sample_fs
        \<lparr>contract_code_path = Some ''contract.hex'', calldata = Some ''ab'', num_runs = Some 2\<rparr>) =
       [DeployCall CALLER_ADDRESS [0x60, 0, 0x35, 0x60, 0, 0x52] GAS_LIMIT,
        PerfCounter 1000, MessageCall CALLER_ADDRESS ''0xc0de'' [0xAB] GAS_LIMIT, PerfCounter 1250,
        Print (1 / 4000),
        PerfCounter 1500, MessageCall CALLER_ADDRESS ''0xc0de'' [0xAB] GAS_LIMIT, PerfCounter 1750,
        Print (1 / 4000)]"
    by (simp add: main_def load_contract_data_def sample_fs_def fromhex_arg_def
      digit_value_def py_isspace_def construct_evm_def benchmark_def accepting_engine_def
      range_len_def loop_body_def bench_def perf_counter_ns_def print_line_def steady_clock_def
      numeral_2_eq_2)
  from constants_fixed_for_the_run [OF l c, of accepting_engine steady_clock]
  have "list_all (uses_fixed [0x60, 0, 0x35, 0x60, 0, 0x52] ''0xc0de'' [0xAB])
        (snd (main accepting_engine steady_clock sample_fs
          \<lparr>contract_code_path = Some ''contract.hex'', calldata = Some ''ab'', num_runs = Some 2\<rparr>))"
    by (simp only: a)
  with l c t show ?thesis
    by simp
qed

subsection \<open>A negative run count\<close>

text \<open>
  Claim C9, as amended. A negative run count is not checked: \<open>_benchmark\<close> does exactly what
  it does for a run count of 0. It makes the one deployment and nothing else, prints no line,
  and returns normally when the engine reports the deployment successful.
\<close>

theorem negative_count_is_zero_count:
  assumes "n < 0"
  shows "benchmark eng clock a code d (Some n) st = benchmark eng clock a code d (Some 0) st
     \<and> trace (snd (benchmark eng clock a code d (Some n) st)) =
         trace st @ [DeployCall a code GAS_LIMIT]
     \<and> printed (trace (snd (benchmark eng clock a code d (Some n) st))) = printed (trace st)
     \<and> (deployment_succeeds eng a code st \<longrightarrow>
          fst (benchmark eng clock a code d (Some n) st) = Inr ())"
proof -
  have r: "range_len n = 0" "range_len 0 = 0"
    using assms by (simp_all add: range_len_def)
  have "benchmark eng clock a code d (Some n) st = benchmark eng clock a code d (Some 0) st"
    by (cases "deploy eng a code GAS_LIMIT (evm st)") (simp add: benchmark_def r Let_def)
  moreover have "trace (snd (benchmark eng clock a code d (Some n) st)) =
      trace st @ [DeployCall a code GAS_LIMIT]"
    by (simp add: benchmark_trace_cases r timed_calls_0)
  moreover have "deployment_succeeds eng a code st \<longrightarrow>
      fst (benchmark eng clock a code d (Some n) st) = Inr ()"
    by (simp add: benchmark_runs)
  ultimately show ?thesis
    by (simp add: printed_append)
qed

theorem negative_count_is_zero_count_witness:
  "(- 5 :: int) < 0
   \<and> deployment_succeeds accepting_engine CALLER_ADDRESS [0x60, 0] (construct_evm accepting_engine)
   \<and> benchmark accepting_engine steady_clock CALLER_ADDRESS [0x60, 0] [] (Some (- 5))
        (construct_evm accepting_engine) =
       (Inr (), \<lparr>evm = 1, reads = 0, trace = [DeployCall CALLER_ADDRESS [0x60, 0] GAS_LIMIT]\<rparr>)"
proof -
  have n: "(- 5 :: int) < 0"
    by simp
  have h: "deployment_succeeds accepting_engine CALLER_ADDRESS [0x60, 0]
      (construct_evm accepting_engine)"
    by (simp add: deployment_succeeds_def accepting_engine_def)
  have z: "benchmark accepting_engine steady_clock CALLER_ADDRESS [0x60, 0] [] (Some 0)
        (construct_evm accepting_engine) =
       (Inr (), \<lparr>evm = 1, reads = 0, trace = [DeployCall CALLER_ADDRESS [0x60, 0] GAS_LIMIT]\<rparr>)"
    by (simp add: benchmark_def accepting_engine_def construct_evm_def range_len_def)
  show ?thesis
    using n h z
      negative_count_is_zero_count [OF n, of accepting_engine steady_clock CALLER_ADDRESS
        "[0x60, 0]" "[]" "construct_evm accepting_engine"]
    by simp
qed

text \<open>
  Claim C9 as stated, "it completes successfully", fails when the deployment fails: with a
  run count of \<open>-1\<close> and an engine that reports failure, the run ends with the assertion on
  the deployment.
\<close>

theorem negative_count_refused_deployment:
  "fst (benchmark refusing_engine steady_clock CALLER_ADDRESS [0x60, 0] [] (Some (- 1))
      (construct_evm refusing_engine)) =
     Inl (AssertionError (EngineResult \<lparr>is_success = False, detail = ''Revert''\<rparr>))"
  by (simp add: benchmark_def refusing_engine_def construct_evm_def)

subsection \<open>Whitespace in hexadecimal text\<close>




end
